theory Spec2Isabelle
  imports Main "HOL-Library.Word" "HOL-Library.AList"
begin

section \<open>Python values, classes and exceptions\<close>

text \<open>
  The module \<^verbatim>\<open>petstore_sdk/models/base.py\<close> is dynamically typed. Its values are
  modelled by one datatype: the JSON-shaped raw data (null, scalars, lists, dictionaries
  with string keys), instances of generated model classes (class name and attributes) and
  members of generated enumerations (class name, member name, underlying value; a
  member is not itself a string). The
  content of a float is never inspected by this module; it is kept as its 64 bits.
  A dictionary is an association list in insertion order.
\<close>

datatype pyval =
    PNone
  | PBool bool
  | PInt int
  | PFloat "64 word"
  | PStr string
  | PList "pyval list"
  | PDict "(string \<times> pyval) list"
  | PObj string "(string \<times> pyval) list"
  | PEnum string string pyval

text \<open>
  The classes that can be handed to the helpers as a target class or as a member of a
  union: builtin classes, generated model classes, generated enumeration classes, and the
  parametrised generics \<^verbatim>\<open>List[T]\<close> and \<^verbatim>\<open>Dict[K, V]\<close>. The element specification of
  \<^verbatim>\<open>_define_list\<close> is such a class or a \<^verbatim>\<open>Union[...]\<close> of them (Python flattens
  nested unions, so a member of a union is never a union).
\<close>

datatype pyclass =
    CNoneType
  | CStr
  | CInt
  | CFloat
  | CBool
  | CList
  | CDict
  | CModel string
  | CEnum string
  | ListOf pyclass
  | DictOf pyclass pyclass

datatype elem_spec = Plain pyclass | UnionOf "pyclass list"

text \<open>
  Exceptions, all of them subclasses of \<^verbatim>\<open>Exception\<close>. \<open>ValueError\<close> is the one this
  module raises itself (the specification calls it \<^verbatim>\<open>ValidationError\<close>); \<open>TypeError\<close>
  and \<open>AttributeError\<close> are raised by the interpreter, \<open>ReError\<close> by \<^verbatim>\<open>re\<close> on a
  pattern that does not compile, \<open>Raised\<close> stands for any other exception of the
  generated layer.
\<close>

datatype exn = ValueError string | TypeError | AttributeError | ReError | Raised string

text \<open>
  What the module calls but does not define: the generated model layer (class hierarchy,
  \<^verbatim>\<open>cls._unmap(raw)\<close>, \<^verbatim>\<open>instance._map()\<close>, \<^verbatim>\<open>cls(item)\<close>, \<^verbatim>\<open>EnumCls.list()\<close>)
  and two library functions: \<^verbatim>\<open>re.match(p, v)\<close>, which raises on a pattern that does
  not compile or on a value that is not a string and otherwise tells whether a match was
  found at the start of \<open>v\<close>, and \<^verbatim>\<open>repr\<close> on a string. They are parameters of the
  model. The result of a generated method is taken as a function of its arguments. A
  generated method can also assign the class attribute \<^verbatim>\<open>OneOfBaseModel.class_list\<close>:
  its constructors coerce nested list fields with \<^verbatim>\<open>_define_list\<close>, which assigns the
  attribute. \<open>assigns env call st\<close> is the value of the attribute after the call
  \<open>call\<close> of the generated layer, whether it returned or raised, when the attribute
  held \<open>st\<close> before.
\<close>

type_synonym class_map = "(string \<times> pyclass) list"

datatype gen_call =
    CallUnmap string pyval
  | CallToMap pyval
  | CallConstruct pyclass pyval
  | CallEnumList string

record py_env =
  subclass_of :: "string \<Rightarrow> string \<Rightarrow> bool"
  unmap :: "string \<Rightarrow> pyval \<Rightarrow> exn + pyval"
  to_map :: "pyval \<Rightarrow> exn + pyval"
  construct :: "pyclass \<Rightarrow> pyval \<Rightarrow> exn + pyval"
  enum_list :: "string \<Rightarrow> exn + string list"
  assigns :: "gen_call \<Rightarrow> class_map \<Rightarrow> class_map"
  re_match :: "string \<Rightarrow> pyval \<Rightarrow> exn + bool"
  repr_str :: "string \<Rightarrow> string"

section \<open>Python primitives used by the module\<close>

fun is_list :: "pyval \<Rightarrow> bool" where
  "is_list (PList _) = True"
| "is_list _ = False"

fun is_dict :: "pyval \<Rightarrow> bool" where
  "is_dict (PDict _) = True"
| "is_dict _ = False"

text \<open>\<^verbatim>\<open>isinstance(v, (str, float, int, bool))\<close>\<close>

fun is_primitive :: "pyval \<Rightarrow> bool" where
  "is_primitive (PStr _) = True"
| "is_primitive (PFloat _) = True"
| "is_primitive (PInt _) = True"
| "is_primitive (PBool _) = True"
| "is_primitive _ = False"

text \<open>
  \<^verbatim>\<open>isinstance(v, c)\<close>. A bool is an int; an instance of a model class is an instance
  of its superclasses; a parametrised generic cannot be used in an instance check
  (TypeError).
\<close>

fun isinstance :: "py_env \<Rightarrow> pyval \<Rightarrow> pyclass \<Rightarrow> exn + bool" where
  "isinstance env v CNoneType = Inr (v = PNone)"
| "isinstance env v CStr = Inr (case v of PStr _ \<Rightarrow> True | _ \<Rightarrow> False)"
| "isinstance env v CInt = Inr (case v of PInt _ \<Rightarrow> True | PBool _ \<Rightarrow> True | _ \<Rightarrow> False)"
| "isinstance env v CFloat = Inr (case v of PFloat _ \<Rightarrow> True | _ \<Rightarrow> False)"
| "isinstance env v CBool = Inr (case v of PBool _ \<Rightarrow> True | _ \<Rightarrow> False)"
| "isinstance env v CList = Inr (is_list v)"
| "isinstance env v CDict = Inr (is_dict v)"
| "isinstance env v (CModel c) =
     Inr (case v of PObj c' _ \<Rightarrow> subclass_of env c' c | _ \<Rightarrow> False)"
| "isinstance env v (CEnum c) = Inr (case v of PEnum c' _ _ \<Rightarrow> c' = c | _ \<Rightarrow> False)"
| "isinstance env v (ListOf _) = Inl TypeError"
| "isinstance env v (DictOf _ _) = Inl TypeError"

text \<open>\<^verbatim>\<open>typing.get_origin\<close> and \<^verbatim>\<open>typing.get_args\<close>\<close>

fun get_origin :: "pyclass \<Rightarrow> pyclass option" where
  "get_origin (ListOf _) = Some CList"
| "get_origin (DictOf _ _) = Some CDict"
| "get_origin _ = None"

fun get_args :: "pyclass \<Rightarrow> pyclass list" where
  "get_args (ListOf t) = [t]"
| "get_args (DictOf k v) = [k, v]"
| "get_args _ = []"

text \<open>\<^verbatim>\<open>c.__name__\<close>\<close>

fun class_name :: "pyclass \<Rightarrow> string" where
  "class_name CNoneType = ''NoneType''"
| "class_name CStr = ''str''"
| "class_name CInt = ''int''"
| "class_name CFloat = ''float''"
| "class_name CBool = ''bool''"
| "class_name CList = ''list''"
| "class_name CDict = ''dict''"
| "class_name (CModel n) = n"
| "class_name (CEnum n) = n"
| "class_name (ListOf _) = ''List''"
| "class_name (DictOf _ _) = ''Dict''"

text \<open>\<^verbatim>\<open>c._unmap(raw)\<close>: only generated classes have the attribute.\<close>

fun class_unmap :: "py_env \<Rightarrow> pyclass \<Rightarrow> pyval \<Rightarrow> exn + pyval" where
  "class_unmap env (CModel n) raw = unmap env n raw"
| "class_unmap env (CEnum n) raw = unmap env n raw"
| "class_unmap env _ raw = Inl AttributeError"

text \<open>\<^verbatim>\<open>v.items()\<close>\<close>

fun py_items :: "pyval \<Rightarrow> exn + (string \<times> pyval) list" where
  "py_items (PDict kvs) = Inr kvs"
| "py_items _ = Inl AttributeError"

text \<open>\<^verbatim>\<open>for item in v\<close>: the elements of a list, the keys of a dictionary, the characters
  of a string; anything else is not iterable.\<close>

fun py_iter :: "pyval \<Rightarrow> exn + pyval list" where
  "py_iter (PList xs) = Inr xs"
| "py_iter (PDict kvs) = Inr (map (\<lambda>kv. PStr (fst kv)) kvs)"
| "py_iter (PStr s) = Inr (map (\<lambda>c. PStr [c]) s)"
| "py_iter _ = Inl TypeError"

text \<open>A dictionary built by inserting the pairs in order (a dict comprehension).\<close>

definition dict_of_items :: "(string \<times> pyval) list \<Rightarrow> (string \<times> pyval) list" where
  "dict_of_items kvs = foldl (\<lambda>d kv. AList.update (fst kv) (snd kv) d) [] kvs"

text \<open>\<^verbatim>\<open>", ".join(xs)\<close> and the \<^verbatim>\<open>str\<close> of a list of strings, as an f-string renders it.\<close>

fun join :: "string \<Rightarrow> string list \<Rightarrow> string" where
  "join sep [] = []"
| "join sep [x] = x"
| "join sep (x # y # ys) = x @ sep @ join sep (y # ys)"

definition list_repr :: "py_env \<Rightarrow> string list \<Rightarrow> string" where
  "list_repr env xs = ''['' @ join '', '' (map (repr_str env) xs) @ '']''"

section \<open>BaseModel\<close>

text \<open>\<^verbatim>\<open>BaseModel._pattern_matching(value, pattern, variable_name)\<close>\<close>

definition pattern_matching :: "py_env \<Rightarrow> pyval \<Rightarrow> string \<Rightarrow> string \<Rightarrow> exn + pyval" where
  "pattern_matching env value pattern variable_name =
     (if value = PNone then Inr PNone
      else case re_match env pattern value of
        Inl e \<Rightarrow> Inl e
      | Inr m \<Rightarrow>
          if m then Inr value
          else Inl (ValueError
            (''Invalid value for '' @ variable_name @ '': must match '' @ pattern)))"

text \<open>\<^verbatim>\<open>BaseModel._enum_matching(value, enum_values, variable_name)\<close>.
  \<open>str_value in enum_values\<close> compares with the strings of the list.\<close>

definition enum_str_value :: "pyval \<Rightarrow> pyval" where
  "enum_str_value value = (case value of PEnum _ _ v \<Rightarrow> v | _ \<Rightarrow> value)"

definition py_in :: "pyval \<Rightarrow> string list \<Rightarrow> bool" where
  "py_in v xs = (case v of PStr s \<Rightarrow> s \<in> set xs | _ \<Rightarrow> False)"

definition enum_matching :: "py_env \<Rightarrow> pyval \<Rightarrow> string list \<Rightarrow> string \<Rightarrow> exn + pyval" where
  "enum_matching env value enum_values variable_name =
     (if value = PNone then Inr PNone
      else let str_value = enum_str_value value in
        if py_in str_value enum_values then Inr value
        else Inl (ValueError
          (''Invalid value for '' @ variable_name @ '': must match one of ''
             @ list_repr env enum_values)))"

text \<open>\<^verbatim>\<open>BaseModel._define_object(input_data, input_class)\<close>\<close>

definition define_object :: "py_env \<Rightarrow> pyval \<Rightarrow> pyclass \<Rightarrow> exn + pyval" where
  "define_object env input_data input_class =
     (if input_data = PNone then Inr PNone
      else case isinstance env input_data input_class of
        Inl e \<Rightarrow> Inl e
      | Inr b \<Rightarrow> if b then Inr input_data else class_unmap env input_class input_data)"

text \<open>\<^verbatim>\<open>BaseModel.__create_class_map(union_type)\<close>\<close>

fun spec_args :: "elem_spec \<Rightarrow> pyclass list" where
  "spec_args (UnionOf ts) = ts"
| "spec_args (Plain c) = get_args c"

definition create_class_map :: "elem_spec \<Rightarrow> class_map" where
  "create_class_map union_type =
     foldl (\<lambda>class_map arg.
              if class_name arg \<noteq> [] then AList.update (class_name arg) arg class_map
              else class_map)
       [] (spec_args union_type)"

section \<open>OneOfBaseModel\<close>

text \<open>\<^verbatim>\<open>OneOfBaseModel._check_params(raw_input, instance)\<close>\<close>

definition nonnull_count :: "(string \<times> pyval) list \<Rightarrow> nat" where
  "nonnull_count kvs = length (dict_of_items (filter (\<lambda>kv. snd kv \<noteq> PNone) kvs))"

definition check_params :: "py_env \<Rightarrow> pyval \<Rightarrow> pyval \<Rightarrow> exn + bool" where
  "check_params env raw_input instance =
     (case py_items raw_input of
        Inl e \<Rightarrow> Inl e
      | Inr raw_items \<Rightarrow>
          (case to_map env instance of
             Inl e \<Rightarrow> Inl e
           | Inr instance_map \<Rightarrow>
               (case py_items instance_map of
                  Inl e \<Rightarrow> Inl e
                | Inr map_items \<Rightarrow> Inr (nonnull_count raw_items = nonnull_count map_items))))"

text \<open>\<^verbatim>\<open>OneOfBaseModel._get_list_instance(input_data, class_constructor, origin)\<close>:
  \<open>all(...)\<close> stops at the first element that is not an instance, the list comprehension
  at the first element whose construction raises; a call that falls off the end returns
  \<open>None\<close>.\<close>

fun all_isinstance :: "py_env \<Rightarrow> pyclass \<Rightarrow> pyval list \<Rightarrow> exn + bool" where
  "all_isinstance env inner [] = Inr True"
| "all_isinstance env inner (item # items) =
     (case isinstance env item inner of
        Inl e \<Rightarrow> Inl e
      | Inr b \<Rightarrow> if b then all_isinstance env inner items else Inr False)"

fun unmap_all :: "py_env \<Rightarrow> pyclass \<Rightarrow> pyval list \<Rightarrow> exn + pyval list" where
  "unmap_all env inner [] = Inr []"
| "unmap_all env inner (item # items) =
     (case class_unmap env inner item of
        Inl e \<Rightarrow> Inl e
      | Inr v \<Rightarrow>
          (case unmap_all env inner items of
             Inl e \<Rightarrow> Inl e
           | Inr vs \<Rightarrow> Inr (v # vs)))"

definition get_list_instance :: "py_env \<Rightarrow> pyval \<Rightarrow> pyclass \<Rightarrow> pyclass \<Rightarrow> exn + pyval" where
  "get_list_instance env input_data class_constructor origin =
     (let args = get_args class_constructor in
      case isinstance env input_data origin of
        Inl e \<Rightarrow> Inl e
      | Inr b \<Rightarrow>
          if b then
            (case (args, input_data) of
               ([inner_type], PList items) \<Rightarrow>
                 (case all_isinstance env inner_type items of
                    Inl e \<Rightarrow> Inl e
                  | Inr a \<Rightarrow>
                      if a then Inr input_data
                      else (case unmap_all env inner_type items of
                              Inl e \<Rightarrow> Inl e
                            | Inr vs \<Rightarrow> Inr (PList vs)))
             | _ \<Rightarrow> Inr PNone)
          else Inr PNone)"

text \<open>
  The body of the \<^verbatim>\<open>try\<close> block of \<^verbatim>\<open>return_one_of\<close> for one candidate:
  \<open>Inr (Some v)\<close> when it returns \<open>v\<close>, \<open>Inr None\<close> when it goes on to the next
  candidate, \<open>Inl e\<close> when it raises \<open>e\<close>. \<open>instance_or_mapping\<close> is the
  \<^verbatim>\<open>if isinstance ... elif isinstance(input_data, dict)\<close> statement.
\<close>

definition instance_or_mapping :: "py_env \<Rightarrow> pyval \<Rightarrow> pyclass \<Rightarrow> exn + pyval option" where
  "instance_or_mapping env input_data class_constructor =
     (case isinstance env input_data class_constructor of
        Inl e \<Rightarrow> Inl e
      | Inr b \<Rightarrow>
          if b then Inr (Some input_data)
          else if is_dict input_data then
            (case class_unmap env class_constructor input_data of
               Inl e \<Rightarrow> Inl e
             | Inr instance \<Rightarrow>
                 (case check_params env input_data instance of
                    Inl e \<Rightarrow> Inl e
                  | Inr ok \<Rightarrow> if ok then Inr (Some instance) else Inr None))
          else Inr None)"

definition candidate_body :: "py_env \<Rightarrow> pyval \<Rightarrow> pyclass \<Rightarrow> exn + pyval option" where
  "candidate_body env input_data class_constructor =
     (case get_origin class_constructor of
        Some origin \<Rightarrow>
          if is_list input_data then
            (case get_list_instance env input_data class_constructor origin of
               Inl e \<Rightarrow> Inl e
             | Inr list_instance \<Rightarrow>
                 if list_instance \<noteq> PNone then Inr (Some list_instance) else Inr None)
          else instance_or_mapping env input_data class_constructor
      | None \<Rightarrow> instance_or_mapping env input_data class_constructor)"

text \<open>\<^verbatim>\<open>try: ... except Exception: pass\<close>\<close>

definition try_candidate :: "py_env \<Rightarrow> pyval \<Rightarrow> pyclass \<Rightarrow> pyval option" where
  "try_candidate env input_data class_constructor =
     (case candidate_body env input_data class_constructor of
        Inl e \<Rightarrow> None
      | Inr r \<Rightarrow> r)"

definition one_of_message :: "py_env \<Rightarrow> class_map \<Rightarrow> string" where
  "one_of_message env class_list =
     ''Input data must match one of the models: '' @ list_repr env (map fst class_list)"

text \<open>The \<^verbatim>\<open>for\<close> loop over \<^verbatim>\<open>cls.class_list.values()\<close> and the final \<^verbatim>\<open>raise\<close>.\<close>

fun one_of_loop :: "py_env \<Rightarrow> class_map \<Rightarrow> pyval \<Rightarrow> pyclass list \<Rightarrow> exn + pyval" where
  "one_of_loop env class_list input_data [] =
     Inl (ValueError (one_of_message env class_list))"
| "one_of_loop env class_list input_data (class_constructor # rest) =
     (case try_candidate env input_data class_constructor of
        Some v \<Rightarrow> Inr v
      | None \<Rightarrow> one_of_loop env class_list input_data rest)"

text \<open>\<^verbatim>\<open>OneOfBaseModel.return_one_of(input_data)\<close>; \<open>class_list\<close> is \<^verbatim>\<open>cls.class_list\<close>,
  the candidate set of the class on which the method is called.\<close>

definition return_one_of :: "py_env \<Rightarrow> class_map \<Rightarrow> pyval \<Rightarrow> exn + pyval" where
  "return_one_of env class_list input_data =
     (if input_data = PNone then Inr PNone
      else if is_primitive input_data then Inr input_data
      else one_of_loop env class_list input_data (map snd class_list))"

section \<open>The class attribute during a resolution\<close>

text \<open>
  \<^verbatim>\<open>return_one_of\<close> does not assign \<^verbatim>\<open>OneOfBaseModel.class_list\<close> itself, but the
  generated methods it calls can. The functions of this section follow the calls of the
  generated layer that the resolver makes, in the order in which it makes them, and give
  the value of the attribute after each part of the resolver, from its value \<open>st\<close>
  before: \<^verbatim>\<open>c._unmap(raw)\<close> is called when the class has the method,
  \<^verbatim>\<open>instance._map()\<close> is called by \<^verbatim>\<open>_check_params\<close>, the list comprehension of
  \<^verbatim>\<open>_get_list_instance\<close> stops at the first \<^verbatim>\<open>_unmap\<close> that raises, and the loop stops
  at the first candidate that returns.
\<close>

fun class_unmap_effect :: "py_env \<Rightarrow> pyclass \<Rightarrow> pyval \<Rightarrow> class_map \<Rightarrow> class_map" where
  "class_unmap_effect env (CModel n) raw st = assigns env (CallUnmap n raw) st"
| "class_unmap_effect env (CEnum n) raw st = assigns env (CallUnmap n raw) st"
| "class_unmap_effect env _ raw st = st"

definition check_params_effect :: "py_env \<Rightarrow> pyval \<Rightarrow> pyval \<Rightarrow> class_map \<Rightarrow> class_map" where
  "check_params_effect env raw_input instance st =
     (case py_items raw_input of
        Inl e \<Rightarrow> st
      | Inr raw_items \<Rightarrow> assigns env (CallToMap instance) st)"

fun unmap_all_effect :: "py_env \<Rightarrow> pyclass \<Rightarrow> pyval list \<Rightarrow> class_map \<Rightarrow> class_map" where
  "unmap_all_effect env inner [] st = st"
| "unmap_all_effect env inner (item # items) st =
     (let st1 = class_unmap_effect env inner item st in
      case class_unmap env inner item of
        Inl e \<Rightarrow> st1
      | Inr v \<Rightarrow> unmap_all_effect env inner items st1)"

definition get_list_instance_effect ::
  "py_env \<Rightarrow> pyval \<Rightarrow> pyclass \<Rightarrow> pyclass \<Rightarrow> class_map \<Rightarrow> class_map"
where
  "get_list_instance_effect env input_data class_constructor origin st =
     (let args = get_args class_constructor in
      case isinstance env input_data origin of
        Inl e \<Rightarrow> st
      | Inr b \<Rightarrow>
          if b then
            (case (args, input_data) of
               ([inner_type], PList items) \<Rightarrow>
                 (case all_isinstance env inner_type items of
                    Inl e \<Rightarrow> st
                  | Inr a \<Rightarrow>
                      if a then st else unmap_all_effect env inner_type items st)
             | _ \<Rightarrow> st)
          else st)"

definition instance_or_mapping_effect ::
  "py_env \<Rightarrow> pyval \<Rightarrow> pyclass \<Rightarrow> class_map \<Rightarrow> class_map"
where
  "instance_or_mapping_effect env input_data class_constructor st =
     (case isinstance env input_data class_constructor of
        Inl e \<Rightarrow> st
      | Inr b \<Rightarrow>
          if b then st
          else if is_dict input_data then
            (let st1 = class_unmap_effect env class_constructor input_data st in
             case class_unmap env class_constructor input_data of
               Inl e \<Rightarrow> st1
             | Inr instance \<Rightarrow> check_params_effect env input_data instance st1)
          else st)"

definition candidate_effect :: "py_env \<Rightarrow> pyval \<Rightarrow> pyclass \<Rightarrow> class_map \<Rightarrow> class_map" where
  "candidate_effect env input_data class_constructor st =
     (case get_origin class_constructor of
        Some origin \<Rightarrow>
          if is_list input_data then
            get_list_instance_effect env input_data class_constructor origin st
          else instance_or_mapping_effect env input_data class_constructor st
      | None \<Rightarrow> instance_or_mapping_effect env input_data class_constructor st)"

fun one_of_loop_effect :: "py_env \<Rightarrow> pyval \<Rightarrow> pyclass list \<Rightarrow> class_map \<Rightarrow> class_map" where
  "one_of_loop_effect env input_data [] st = st"
| "one_of_loop_effect env input_data (class_constructor # rest) st =
     (let st1 = candidate_effect env input_data class_constructor st in
      case try_candidate env input_data class_constructor of
        Some v \<Rightarrow> st1
      | None \<Rightarrow> one_of_loop_effect env input_data rest st1)"

definition return_one_of_effect :: "py_env \<Rightarrow> class_map \<Rightarrow> pyval \<Rightarrow> class_map \<Rightarrow> class_map" where
  "return_one_of_effect env class_list input_data st =
     (if input_data = PNone then st
      else if is_primitive input_data then st
      else one_of_loop_effect env input_data (map snd class_list) st)"

section \<open>BaseModel._define_list\<close>

text \<open>
  \<^verbatim>\<open>_define_list\<close> assigns the class attribute \<^verbatim>\<open>OneOfBaseModel.class_list\<close>. The
  attribute is the state of the model: the function takes its value before the call and
  returns, next to its result or exception, its value after the call.
\<close>

fun is_enum_class :: "pyclass \<Rightarrow> bool" where
  "is_enum_class (CEnum _) = True"
| "is_enum_class _ = False"

text \<open>One element of a specification without \<^verbatim>\<open>__args__\<close>, and the attribute after
  the calls of the generated layer made for it.\<close>

definition define_item :: "py_env \<Rightarrow> pyclass \<Rightarrow> pyval \<Rightarrow> exn + pyval" where
  "define_item env list_class item =
     (if is_enum_class list_class then
        (case enum_list env (class_name list_class) of
           Inl e \<Rightarrow> Inl e
         | Inr vals \<Rightarrow> enum_matching env item vals (class_name list_class))
      else
        (case isinstance env item list_class of
           Inl e \<Rightarrow> Inl e
         | Inr b \<Rightarrow>
             if b then Inr item
             else if is_dict item then class_unmap env list_class item
             else construct env list_class item))"

definition define_item_effect :: "py_env \<Rightarrow> pyclass \<Rightarrow> pyval \<Rightarrow> class_map \<Rightarrow> class_map" where
  "define_item_effect env list_class item st =
     (if is_enum_class list_class then assigns env (CallEnumList (class_name list_class)) st
      else
        (case isinstance env item list_class of
           Inl e \<Rightarrow> st
         | Inr b \<Rightarrow>
             if b then st
             else if is_dict item then class_unmap_effect env list_class item st
             else assigns env (CallConstruct list_class item) st))"

text \<open>
  The loop of \<^verbatim>\<open>_define_list\<close>. In the branch of a specification with \<^verbatim>\<open>__args__\<close>
  the attribute is assigned the class map, and \<^verbatim>\<open>OneOfBaseModel.return_one_of(item)\<close>
  reads its candidates from it when its loop starts; \<open>st''\<close> is the attribute when the
  resolver is done. The only exception that leaves the resolver is its final
  \<^verbatim>\<open>raise\<close>, whose message is rendered from the attribute as it is then.
\<close>

fun define_list_loop ::
  "py_env \<Rightarrow> elem_spec \<Rightarrow> pyval list \<Rightarrow> pyval list \<Rightarrow> class_map \<Rightarrow> (exn + pyval) \<times> class_map"
where
  "define_list_loop env list_class [] result st = (Inr (PList result), st)"
| "define_list_loop env list_class (item # items) result st =
     (if spec_args list_class \<noteq> [] then
        (let class_list = create_class_map list_class;
             st' = class_list;
             st'' = return_one_of_effect env st' item st'
         in case return_one_of env st' item of
              Inl e \<Rightarrow> (Inl (ValueError (one_of_message env st'')), st'')
            | Inr v \<Rightarrow> define_list_loop env list_class items (result @ [v]) st'')
      else
        (case list_class of
           UnionOf _ \<Rightarrow> (Inl TypeError, st)
         | Plain c \<Rightarrow>
             (let st' = define_item_effect env c item st in
              case define_item env c item of
                Inl e \<Rightarrow> (Inl e, st')
              | Inr v \<Rightarrow> define_list_loop env list_class items (result @ [v]) st')))"

definition define_list ::
  "py_env \<Rightarrow> pyval \<Rightarrow> elem_spec \<Rightarrow> class_map \<Rightarrow> (exn + pyval) \<times> class_map"
where
  "define_list env input_data list_class st =
     (if input_data = PNone then (Inr PNone, st)
      else case py_iter input_data of
        Inl e \<Rightarrow> (Inl e, st)
      | Inr items \<Rightarrow> define_list_loop env list_class items [] st)"

section \<open>The field-count rule as the specification words it\<close>

text \<open>
  The specification's acceptance rule for a raw mapping \<open>d\<close> and a candidate \<open>c\<close>: the
  candidate's mapping constructor succeeds, and the number of non-null values of \<open>d\<close>
  equals the number of non-null fields of the constructed instance's mapping projection.
  \<open>Some inst\<close> is "accepted, with the instance \<open>inst\<close>". The number of non-null values
  is counted on the values themselves, not by the dictionary that \<^verbatim>\<open>_check_params\<close>
  builds.
\<close>

definition count_nonnull :: "(string \<times> pyval) list \<Rightarrow> nat" where
  "count_nonnull kvs = length (filter (\<lambda>v. v \<noteq> PNone) (map snd kvs))"

definition field_count_accept ::
  "py_env \<Rightarrow> (string \<times> pyval) list \<Rightarrow> pyclass \<Rightarrow> pyval option"
where
  "field_count_accept env d c =
     (case class_unmap env c (PDict d) of
        Inl e \<Rightarrow> None
      | Inr inst \<Rightarrow>
          (case to_map env inst of
             Inr (PDict m) \<Rightarrow> if count_nonnull d = count_nonnull m then Some inst else None
           | _ \<Rightarrow> None))"

text \<open>
  The rule for any candidate: a candidate of which the dictionary is already an instance
  is accepted with the dictionary itself, any other candidate by the field-count rule.
\<close>

definition dict_accept ::
  "py_env \<Rightarrow> (string \<times> pyval) list \<Rightarrow> pyclass \<Rightarrow> pyval option"
where
  "dict_accept env d c =
     (if isinstance env (PDict d) c = Inr True then Some (PDict d)
      else field_count_accept env d c)"

text \<open>
  A Python dictionary has no two equal keys. \<open>projection_keys_distinct\<close> says so of the
  mapping projection of the instance that the candidate constructs from \<open>d\<close>, when there
  is one.
\<close>

definition projection_keys_distinct ::
  "py_env \<Rightarrow> (string \<times> pyval) list \<Rightarrow> pyclass \<Rightarrow> bool"
where
  "projection_keys_distinct env d c =
     (case class_unmap env c (PDict d) of
        Inl e \<Rightarrow> True
      | Inr inst \<Rightarrow>
          (case to_map env inst of
             Inr (PDict m) \<Rightarrow> distinct (map fst m)
           | _ \<Rightarrow> True))"

section \<open>Example classes\<close>

text \<open>
  Modelled from the spec: the generated model classes are not part of the source. These
  are the two candidate schemas of the specification's disambiguation example, \<open>A\<close> with
  the fields \<open>x\<close>, \<open>y\<close> and \<open>B\<close> with the fields \<open>x\<close>, \<open>y\<close>, \<open>z\<close>. The mapping
  constructor of a class reads its fields from the raw mapping and leaves a field that
  the mapping does not have null; the mapping projection of an instance returns its
  fields. The enumeration \<open>Status\<close> is the one of the specification's end-to-end example.
\<close>

definition demo_fields :: "string \<Rightarrow> string list option" where
  "demo_fields n =
     (if n = ''A'' then Some [''x'', ''y'']
      else if n = ''B'' then Some [''x'', ''y'', ''z'']
      else None)"

definition dict_get :: "(string \<times> pyval) list \<Rightarrow> string \<Rightarrow> pyval" where
  "dict_get kvs k = (case map_of kvs k of Some v \<Rightarrow> v | None \<Rightarrow> PNone)"

definition demo_unmap :: "string \<Rightarrow> pyval \<Rightarrow> exn + pyval" where
  "demo_unmap n raw =
     (case demo_fields n of
        None \<Rightarrow> Inl AttributeError
      | Some fs \<Rightarrow>
          (case raw of
             PDict kvs \<Rightarrow> Inr (PObj n (map (\<lambda>f. (f, dict_get kvs f)) fs))
           | _ \<Rightarrow> Inl TypeError))"

definition demo_to_map :: "pyval \<Rightarrow> exn + pyval" where
  "demo_to_map v = (case v of PObj n attrs \<Rightarrow> Inr (PDict attrs) | _ \<Rightarrow> Inl AttributeError)"

definition demo_enum_list :: "string \<Rightarrow> exn + string list" where
  "demo_enum_list n =
     (if n = ''Status'' then Inr [''available'', ''pending'', ''sold'']
      else Inl AttributeError)"

text \<open>
  \<^verbatim>\<open>re.match\<close> on a pattern of literal characters (the value starts with the pattern)
  and \<^verbatim>\<open>repr\<close> on a string that needs no escape.
\<close>

definition literal_match :: "string \<Rightarrow> pyval \<Rightarrow> exn + bool" where
  "literal_match p v = (case v of PStr s \<Rightarrow> Inr (take (length p) s = p) | _ \<Rightarrow> Inl TypeError)"

definition quoted :: "string \<Rightarrow> string" where
  "quoted s = [CHR 0x27] @ s @ [CHR 0x27]"

definition demo_env :: py_env where
  "demo_env =
     \<lparr> subclass_of = (\<lambda>c' c. c' = c),
       unmap = demo_unmap,
       to_map = demo_to_map,
       construct = (\<lambda>c v. Inl TypeError),
       enum_list = demo_enum_list,
       assigns = (\<lambda>call st. st),
       re_match = literal_match,
       repr_str = quoted \<rparr>"

text \<open>
  Modelled from the spec: a generated layer in which the constructor of \<open>B\<close> coerces a
  nested list field whose elements are \<^verbatim>\<open>Union[str, int]\<close> ("recursively instantiating
  nested object/list fields"), so that \<^verbatim>\<open>B._unmap\<close> leaves the class map of that union
  in the attribute. Everything else is as in \<open>demo_env\<close>.
\<close>

definition nested_assigns :: "gen_call \<Rightarrow> class_map \<Rightarrow> class_map" where
  "nested_assigns call st =
     (case call of
        CallUnmap n raw \<Rightarrow> if n = ''B'' then [(''str'', CStr), (''int'', CInt)] else st
      | _ \<Rightarrow> st)"

definition nested_env :: py_env where
  "nested_env = demo_env \<lparr> assigns := nested_assigns \<rparr>"

section \<open>Auxiliary facts\<close>


lemma one_of_loop_first:
  "one_of_loop env cl x cs =
     (case List.map_filter (try_candidate env x) cs of
        [] \<Rightarrow> Inl (ValueError (one_of_message env cl))
      | v # _ \<Rightarrow> Inr v)"
  by (induction cs) (auto simp: List.map_filter_simps split: option.splits)


lemma map_filter_cong_set:
  "(\<And>x. x \<in> set xs \<Longrightarrow> f x = g x) \<Longrightarrow> List.map_filter f xs = List.map_filter g xs"
proof (induction xs)
  case Nil
  show ?case by (simp add: List.map_filter_simps)
next
  case (Cons a xs)
  have "f a = g a" using Cons.prems by simp
  moreover have "List.map_filter f xs = List.map_filter g xs"
    using Cons.IH Cons.prems by simp
  ultimately show ?case by (cases "g a") (simp_all add: List.map_filter_simps)
qed



text \<open>For a dictionary with distinct keys, the count that \<^verbatim>\<open>_check_params\<close> takes is the
  number of non-null values.\<close>

lemma length_update_fresh:
  "k \<notin> fst ` set al \<Longrightarrow> length (AList.update k v al) = Suc (length al)"
  by (induction al) auto

lemma length_dict_of_items_aux:
  "distinct (map fst kvs) \<Longrightarrow> distinct (map fst acc) \<Longrightarrow>
   set (map fst kvs) \<inter> set (map fst acc) = {} \<Longrightarrow>
   length (foldl (\<lambda>d kv. AList.update (fst kv) (snd kv) d) acc kvs) = length acc + length kvs"
proof (induction kvs arbitrary: acc)
  case Nil
  then show ?case by simp
next
  case (Cons kv kvs)
  have fresh: "fst kv \<notin> fst ` set acc" using Cons.prems by auto
  have "length (AList.update (fst kv) (snd kv) acc) = Suc (length acc)"
    using fresh by (rule length_update_fresh)
  moreover have "distinct (map fst (AList.update (fst kv) (snd kv) acc))"
    using Cons.prems by (simp add: distinct_update)
  moreover have "set (map fst kvs) \<inter> set (map fst (AList.update (fst kv) (snd kv) acc)) = {}"
    using Cons.prems by (auto simp: dom_update)
  ultimately show ?case using Cons.IH [of "AList.update (fst kv) (snd kv) acc"] Cons.prems
    by simp
qed

lemma nonnull_count_distinct:
  assumes "distinct (map fst kvs)"
  shows "nonnull_count kvs = count_nonnull kvs"
proof -
  let ?f = "filter (\<lambda>kv. snd kv \<noteq> PNone) kvs"
  have "distinct (map fst ?f)" using assms by (simp add: distinct_map_filter)
  then have "length (dict_of_items ?f) = length ?f"
    unfolding dict_of_items_def using length_dict_of_items_aux [of ?f "[]"] by simp
  moreover have "length ?f = length (filter (\<lambda>v. v \<noteq> PNone) (map snd kvs))"
    by (induction kvs) auto
  ultimately show ?thesis by (simp add: nonnull_count_def count_nonnull_def)
qed

text \<open>On a raw mapping, one trial is the acceptance rule: the instance check first, then
  the field-count rule, every exception on the way counting as a rejection.\<close>

lemma check_params_count:
  assumes "distinct (map fst d)" "to_map env inst = Inr (PDict m)" "distinct (map fst m)"
  shows "check_params env (PDict d) inst = Inr (count_nonnull d = count_nonnull m)"
  using assms by (simp add: check_params_def nonnull_count_distinct)

lemma try_candidate_dict:
  assumes "distinct (map fst d)" and "projection_keys_distinct env d c"
  shows "try_candidate env (PDict d) c = dict_accept env d c"
proof -
  have body: "candidate_body env (PDict d) c = instance_or_mapping env (PDict d) c"
    by (simp add: candidate_body_def split: option.splits)
  show ?thesis
  proof (cases "isinstance env (PDict d) c")
    case (Inl e)
    then have "class_unmap env c (PDict d) = Inl AttributeError"
      by (cases c) auto
    with Inl show ?thesis
      by (simp add: try_candidate_def body instance_or_mapping_def dict_accept_def
          field_count_accept_def)
  next
    case (Inr b)
    show ?thesis
    proof (cases b)
      case True
      with Inr show ?thesis
        by (simp add: try_candidate_def body instance_or_mapping_def dict_accept_def)
    next
      case False
      show ?thesis
      proof (cases "class_unmap env c (PDict d)")
        case (Inl e)
        with Inr False show ?thesis
          by (simp add: try_candidate_def body instance_or_mapping_def dict_accept_def
              field_count_accept_def)
      next
        case unm: (Inr inst)
        show ?thesis
        proof (cases "to_map env inst")
          case (Inl e)
          with Inr False unm show ?thesis
            by (simp add: try_candidate_def body instance_or_mapping_def dict_accept_def
                field_count_accept_def check_params_def)
        next
          case tm: (Inr mp)
          show ?thesis
          proof (cases "\<exists>m. mp = PDict m")
            case True
            then obtain m where m: "mp = PDict m" by blast
            have "distinct (map fst m)"
              using assms(2) unm tm m by (simp add: projection_keys_distinct_def)
            from check_params_count [OF assms(1) _ this, of env inst] tm m
            have "check_params env (PDict d) inst = Inr (count_nonnull d = count_nonnull m)"
              by simp
            with Inr False unm tm m show ?thesis
              by (simp add: try_candidate_def body instance_or_mapping_def dict_accept_def
                  field_count_accept_def)
          next
            case no: False
            then have "py_items mp = Inl AttributeError" by (cases mp) auto
            then have "check_params env (PDict d) inst = Inl AttributeError"
              using tm by (simp add: check_params_def)
            moreover have "(case mp of PDict m \<Rightarrow>
                 if count_nonnull d = count_nonnull m then Some inst else None
               | _ \<Rightarrow> None) = None"
              using no by (cases mp) auto
            ultimately show ?thesis
              using Inr False unm tm
              by (simp add: try_candidate_def body instance_or_mapping_def dict_accept_def
                  field_count_accept_def)
          qed
        qed
      qed
    qed
  qed
qed

text \<open>The loop of \<^verbatim>\<open>_define_list\<close> on a model class and raw mappings.\<close>

lemma define_item_mapping:
  "is_dict item \<Longrightarrow> define_item env (CModel n) item = unmap env n item"
  by (cases item) (auto simp: define_item_def)

lemma define_item_effect_mapping:
  "is_dict item \<Longrightarrow>
   define_item_effect env (CModel n) item st = assigns env (CallUnmap n item) st"
  by (cases item) (auto simp: define_item_effect_def)

lemma define_list_loop_models:
  assumes "\<forall>item\<in>set items. is_dict item \<and> (\<exists>v. unmap env n item = Inr v)"
  shows "\<exists>vs. define_list_loop env (Plain (CModel n)) items acc st =
               (Inr (PList (acc @ vs)),
                foldl (\<lambda>s item. assigns env (CallUnmap n item) s) st items) \<and>
              list_all2 (\<lambda>item v. unmap env n item = Inr v) items vs"
  using assms
proof (induction items arbitrary: acc st)
  case Nil
  then show ?case by simp
next
  case (Cons item items)
  let ?st = "assigns env (CallUnmap n item) st"
  from Cons.prems obtain v where v: "unmap env n item = Inr v" and d: "is_dict item"
    by auto
  from Cons.IH [of "acc @ [v]" ?st] Cons.prems obtain vs where
    vs: "define_list_loop env (Plain (CModel n)) items (acc @ [v]) ?st =
           (Inr (PList ((acc @ [v]) @ vs)),
            foldl (\<lambda>s item. assigns env (CallUnmap n item) s) ?st items)"
        "list_all2 (\<lambda>item v. unmap env n item = Inr v) items vs"
    by auto
  have "define_list_loop env (Plain (CModel n)) (item # items) acc st =
          (Inr (PList (acc @ (v # vs))),
           foldl (\<lambda>s item. assigns env (CallUnmap n item) s) st (item # items))"
    using v d vs(1) by (simp add: define_item_mapping define_item_effect_mapping)
  moreover have "list_all2 (\<lambda>item v. unmap env n item = Inr v) (item # items) (v # vs)"
    using v vs(2) by simp
  ultimately show ?case by blast
qed

text \<open>A generated layer that assigns nothing leaves the attribute as the resolver found
  it.\<close>

lemma class_unmap_effect_id:
  "\<forall>call s. assigns env call s = s \<Longrightarrow> class_unmap_effect env c raw st = st"
  by (cases c) auto

lemma unmap_all_effect_id:
  "\<forall>call s. assigns env call s = s \<Longrightarrow> unmap_all_effect env c items st = st"
  by (induction items arbitrary: st) (auto simp: class_unmap_effect_id split: sum.splits)

lemma candidate_effect_id:
  assumes "\<forall>call s. assigns env call s = s"
  shows "candidate_effect env x c st = st"
proof -
  have "instance_or_mapping_effect env x c st = st"
    using assms
    by (auto simp: instance_or_mapping_effect_def check_params_effect_def
        class_unmap_effect_id split: sum.splits)
  moreover have "get_list_instance_effect env x c origin st = st" for origin
    using assms
    by (auto simp: get_list_instance_effect_def unmap_all_effect_id
        split: sum.splits list.splits pyval.splits)
  ultimately show ?thesis
    by (simp add: candidate_effect_def split: option.splits)
qed

lemma one_of_loop_effect_id:
  "\<forall>call s. assigns env call s = s \<Longrightarrow> one_of_loop_effect env x cs st = st"
  by (induction cs arbitrary: st) (auto simp: candidate_effect_id split: option.splits)

lemma return_one_of_effect_id:
  "\<forall>call s. assigns env call s = s \<Longrightarrow> return_one_of_effect env cl x st = st"
  by (simp add: return_one_of_effect_def one_of_loop_effect_id)

text \<open>The loop of \<^verbatim>\<open>_define_list\<close> on a specification with \<^verbatim>\<open>__args__\<close>: the
  elements of a returned list, and the class attribute after the loop.\<close>

lemma define_list_loop_resolved:
  "spec_args spec \<noteq> [] \<Longrightarrow>
   fst (define_list_loop env spec items acc st) = Inr (PList vs) \<Longrightarrow>
   \<exists>ws. vs = acc @ ws \<and>
        list_all2 (\<lambda>item v. return_one_of env (create_class_map spec) item = Inr v) items ws"
proof (induction items arbitrary: acc st)
  case Nil
  then show ?case by simp
next
  case (Cons item items)
  let ?cm = "create_class_map spec"
  show ?case
  proof (cases "return_one_of env ?cm item")
    case (Inl e)
    with Cons.prems show ?thesis by (simp add: Let_def)
  next
    case (Inr v)
    with Cons.prems have "fst (define_list_loop env spec items (acc @ [v])
        (return_one_of_effect env ?cm item ?cm)) = Inr (PList vs)"
      by (simp add: Let_def)
    from Cons.IH [OF Cons.prems(1) this] obtain ws where
      "vs = (acc @ [v]) @ ws"
      "list_all2 (\<lambda>item v. return_one_of env ?cm item = Inr v) items ws"
      by blast
    with Inr have "vs = acc @ (v # ws) \<and>
      list_all2 (\<lambda>item v. return_one_of env ?cm item = Inr v) (item # items) (v # ws)"
      by simp
    then show ?thesis by blast
  qed
qed

lemma define_list_loop_last_state:
  "spec_args spec \<noteq> [] \<Longrightarrow> items \<noteq> [] \<Longrightarrow>
   fst (define_list_loop env spec items acc st) = Inr r \<Longrightarrow>
   snd (define_list_loop env spec items acc st) =
     return_one_of_effect env (create_class_map spec) (last items) (create_class_map spec)"
proof (induction items arbitrary: acc st)
  case Nil
  then show ?case by simp
next
  case (Cons item items)
  let ?cm = "create_class_map spec"
  let ?st = "return_one_of_effect env ?cm item ?cm"
  show ?case
  proof (cases "return_one_of env ?cm item")
    case (Inl e)
    with Cons.prems show ?thesis by (simp add: Let_def)
  next
    case (Inr v)
    then have step: "define_list_loop env spec (item # items) acc st =
        define_list_loop env spec items (acc @ [v]) ?st"
      using Cons.prems(1) by (simp add: Let_def)
    show ?thesis
    proof (cases "items = []")
      case True
      with step show ?thesis by simp
    next
      case False
      from Cons.prems(3) step
      have "fst (define_list_loop env spec items (acc @ [v]) ?st) = Inr r" by simp
      from Cons.IH [OF Cons.prems(1) False this] step False show ?thesis by simp
    qed
  qed
qed

text \<open>The example classes, evaluated.\<close>

lemma demo_null_not_counted:
  "dict_accept demo_env [(''x'', PInt 1), (''y'', PInt 2), (''z'', PNone)] (CModel ''A'')
     = Some (PObj ''A'' [(''x'', PInt 1), (''y'', PInt 2)])"
  by code_simp

lemma demo_null_field_not_counted:
  "dict_accept demo_env [(''x'', PInt 1)] (CModel ''A'')
     = Some (PObj ''A'' [(''x'', PInt 1), (''y'', PNone)])"
  by code_simp

lemma demo_reject_A:
  "dict_accept demo_env [(''x'', PInt 1), (''y'', PInt 2), (''z'', PInt 3)] (CModel ''A'')
     = None"
  by code_simp

lemma demo_accept_dict:
  "dict_accept demo_env [(''x'', PInt 1), (''y'', PInt 2), (''z'', PInt 3)] CDict
     = Some (PDict [(''x'', PInt 1), (''y'', PInt 2), (''z'', PInt 3)])"
  by code_simp

lemma demo_projection_keys:
  "projection_keys_distinct demo_env [(''x'', PInt 1), (''y'', PInt 2), (''z'', PNone)]
     (CModel ''A'')"
  "projection_keys_distinct demo_env [(''x'', PInt 1), (''y'', PInt 2), (''z'', PNone)]
     (CModel ''B'')"
  "projection_keys_distinct demo_env [(''x'', PInt 1), (''y'', PInt 2), (''z'', PInt 3)]
     (CModel ''A'')"
  "projection_keys_distinct demo_env [(''x'', PInt 1), (''y'', PInt 2), (''z'', PInt 3)] CDict"
  "projection_keys_distinct demo_env [(''x'', PInt 1)] (CModel ''A'')"
  "projection_keys_distinct demo_env [(''x'', PInt 1)] (CModel ''B'')"
  by code_simp+

lemma demo_union_run:
  "define_list demo_env (PList [PDict [(''x'', PInt 1)], PDict [(''z'', PInt 2)]])
     (UnionOf [CModel ''A'', CModel ''B'']) [(''str'', CStr)] =
     (Inr (PList [PObj ''A'' [(''x'', PInt 1), (''y'', PNone)],
                  PObj ''B'' [(''x'', PNone), (''y'', PNone), (''z'', PInt 2)]]),
      [(''A'', CModel ''A''), (''B'', CModel ''B'')])"
  by code_simp

lemma nested_union_value:
  "fst (define_list nested_env
          (PList [PDict [(''x'', PInt 1), (''y'', PInt 2), (''z'', PInt 3)]])
          (UnionOf [CModel ''A'', CModel ''B'']) []) =
     Inr (PList [PObj ''B'' [(''x'', PInt 1), (''y'', PInt 2), (''z'', PInt 3)]])"
  by code_simp

lemma nested_union_effect:
  "return_one_of_effect nested_env (create_class_map (UnionOf [CModel ''A'', CModel ''B'']))
     (PDict [(''x'', PInt 1), (''y'', PInt 2), (''z'', PInt 3)])
     (create_class_map (UnionOf [CModel ''A'', CModel ''B''])) =
     [(''str'', CStr), (''int'', CInt)]"
  by code_simp

section \<open>The claims\<close>

text \<open>
  C1 (amended). For a dictionary input with distinct keys and every candidate of the
  resolver of which the dictionary is not already an instance, the candidate is accepted
  if and only if its mapping constructor succeeds and the count of non-null values of the
  raw input equals the count of non-null fields of the constructed instance's mapping
  projection (a dictionary with distinct keys, as every Python dictionary is). A
  candidate of which the dictionary is already an instance is accepted without any
  construction, with the dictionary itself. The resolver returns what the first accepted
  candidate in the order of the candidate set gives, and raises when there is none.
\<close>

theorem dict_first_accepted:
  assumes "distinct (map fst d)"
    and "\<forall>c\<in>set (map snd class_list). projection_keys_distinct env d c"
  shows "(\<forall>c\<in>set (map snd class_list).
            try_candidate env (PDict d) c = dict_accept env d c) \<and>
         return_one_of env class_list (PDict d) =
           (case List.map_filter (dict_accept env d) (map snd class_list) of
              [] \<Rightarrow> Inl (ValueError (one_of_message env class_list))
            | r # _ \<Rightarrow> Inr r)"
proof -
  have each: "\<forall>c\<in>set (map snd class_list).
      try_candidate env (PDict d) c = dict_accept env d c"
    using assms try_candidate_dict by blast
  have "List.map_filter (try_candidate env (PDict d)) (map snd class_list) =
      List.map_filter (dict_accept env d) (map snd class_list)"
  proof (rule map_filter_cong_set)
    fix c assume "c \<in> set (map snd class_list)"
    with each show "try_candidate env (PDict d) c = dict_accept env d c" by blast
  qed
  then show ?thesis
    using each by (simp add: return_one_of_def one_of_loop_first)
qed

text \<open>With \<open>{x: 1, y: 2, z: null}\<close> and the candidates \<open>A\<close>, \<open>B\<close>: the null \<open>z\<close> of
  the input is not counted, so \<open>A\<close>, with its two non-null fields, is accepted and
  returned. With \<open>{x: 1}\<close> and the same candidates: the null field \<open>y\<close> of the
  instance of \<open>A\<close> is not counted, and \<open>A\<close> is accepted. With \<open>{x: 1, y: 2, z: 3}\<close> and the candidates \<open>A\<close>, \<^verbatim>\<open>dict\<close>: \<open>A\<close>
  constructs but has two non-null fields against three, and \<^verbatim>\<open>dict\<close> is accepted with
  the dictionary itself.\<close>

theorem dict_first_accepted_witness:
  "distinct (map fst [(''x'', PInt 1), (''y'', PInt 2), (''z'', PNone)]) \<and>
   return_one_of demo_env [(''A'', CModel ''A''), (''B'', CModel ''B'')]
     (PDict [(''x'', PInt 1), (''y'', PInt 2), (''z'', PNone)]) =
     Inr (PObj ''A'' [(''x'', PInt 1), (''y'', PInt 2)]) \<and>
   distinct (map fst [(''x'', PInt 1)]) \<and>
   return_one_of demo_env [(''A'', CModel ''A''), (''B'', CModel ''B'')]
     (PDict [(''x'', PInt 1)]) =
     Inr (PObj ''A'' [(''x'', PInt 1), (''y'', PNone)]) \<and>
   distinct (map fst [(''x'', PInt 1), (''y'', PInt 2), (''z'', PInt 3)]) \<and>
   try_candidate demo_env (PDict [(''x'', PInt 1), (''y'', PInt 2), (''z'', PInt 3)])
     (CModel ''A'') = None \<and>
   return_one_of demo_env [(''A'', CModel ''A''), (''dict'', CDict)]
     (PDict [(''x'', PInt 1), (''y'', PInt 2), (''z'', PInt 3)]) =
     Inr (PDict [(''x'', PInt 1), (''y'', PInt 2), (''z'', PInt 3)])"
proof -
  let ?d1 = "[(''x'', PInt 1), (''y'', PInt 2), (''z'', PNone)]"
  let ?d2 = "[(''x'', PInt 1), (''y'', PInt 2), (''z'', PInt 3)]"
  let ?cl1 = "[(''A'', CModel ''A''), (''B'', CModel ''B'')]"
  let ?cl2 = "[(''A'', CModel ''A''), (''dict'', CDict)]"
  have k1: "distinct (map fst ?d1)" by simp
  have k2: "distinct (map fst ?d2)" by simp
  have k3: "distinct (map fst [(''x'', PInt 1)])" by simp
  have p3: "\<forall>c\<in>set (map snd ?cl1). projection_keys_distinct demo_env [(''x'', PInt 1)] c"
    by (simp add: demo_projection_keys)
  have r3: "return_one_of demo_env ?cl1 (PDict [(''x'', PInt 1)]) =
      Inr (PObj ''A'' [(''x'', PInt 1), (''y'', PNone)])"
    using dict_first_accepted [OF k3 p3]
    by (simp add: demo_null_field_not_counted List.map_filter_simps)
  have p1: "\<forall>c\<in>set (map snd ?cl1). projection_keys_distinct demo_env ?d1 c"
    by (simp add: demo_projection_keys)
  have p2: "\<forall>c\<in>set (map snd ?cl2). projection_keys_distinct demo_env ?d2 c"
    by (simp add: demo_projection_keys)
  have r1: "return_one_of demo_env ?cl1 (PDict ?d1) =
      Inr (PObj ''A'' [(''x'', PInt 1), (''y'', PInt 2)])"
    using dict_first_accepted [OF k1 p1]
    by (simp add: demo_null_not_counted List.map_filter_simps)
  have r2: "try_candidate demo_env (PDict ?d2) (CModel ''A'') = None \<and>
      return_one_of demo_env ?cl2 (PDict ?d2) = Inr (PDict ?d2)"
    using dict_first_accepted [OF k2 p2]
    by (simp add: demo_reject_A demo_accept_dict List.map_filter_simps)
  from k1 k2 k3 r1 r2 r3 show ?thesis by blast
qed

text \<open>
  C1 as stated fails at a candidate of which the dictionary is already an instance: with
  the builtin \<^verbatim>\<open>dict\<close> as the only candidate, the resolver accepts it and returns the
  raw dictionary, although \<^verbatim>\<open>dict\<close> has no mapping constructor (the attribute lookup
  raises) and no instance is constructed whose fields could be counted.
\<close>

theorem dict_instance_counterexample:
  "return_one_of demo_env [(''dict'', CDict)] (PDict [(''x'', PInt 1)]) =
     Inr (PDict [(''x'', PInt 1)]) \<and>
   class_unmap demo_env CDict (PDict [(''x'', PInt 1)]) = Inl AttributeError"
  by code_simp

text \<open>
  C2 (amended). With the candidate schemas \<open>A\<close> (fields \<open>x\<close>, \<open>y\<close>) and \<open>B\<close> (fields \<open>x\<close>,
  \<open>y\<close>, \<open>z\<close>) and the raw input \<open>{x: 1, y: 2}\<close>, the resolver selects \<open>A\<close> whenever \<open>A\<close>
  is the first candidate, whatever follows it, although \<open>B\<close> also constructs by leaving
  \<open>z\<close> null.
\<close>

theorem one_of_selects_first_declared:
  "return_one_of demo_env ((k, CModel ''A'') # rest) (PDict [(''x'', PInt 1), (''y'', PInt 2)]) =
     Inr (PObj ''A'' [(''x'', PInt 1), (''y'', PInt 2)])"
proof -
  have "try_candidate demo_env (PDict [(''x'', PInt 1), (''y'', PInt 2)]) (CModel ''A'') =
      Some (PObj ''A'' [(''x'', PInt 1), (''y'', PInt 2)])"
    by code_simp
  then show ?thesis by (simp add: return_one_of_def)
qed

text \<open>
  C2 as stated fails when \<open>B\<close> is declared before \<open>A\<close>: the instance of \<open>B\<close> built from
  \<open>{x: 1, y: 2}\<close> has the null field \<open>z\<close>, which the count leaves out, so \<open>B\<close> has two
  non-null fields as the input has and is returned.
\<close>

theorem one_of_order_counterexample:
  "return_one_of demo_env [(''B'', CModel ''B''), (''A'', CModel ''A'')]
     (PDict [(''x'', PInt 1), (''y'', PInt 2)]) =
     Inr (PObj ''B'' [(''x'', PInt 1), (''y'', PInt 2), (''z'', PNone)])"
  by code_simp

text \<open>
  C3. On null input, \<^verbatim>\<open>_pattern_matching\<close>, \<^verbatim>\<open>_enum_matching\<close>, \<^verbatim>\<open>_define_object\<close>,
  \<^verbatim>\<open>_define_list\<close> and \<^verbatim>\<open>return_one_of\<close> return null and do not raise, whatever their
  other arguments are (\<^verbatim>\<open>_define_list\<close> also leaves the class attribute as it was).
\<close>

theorem null_passthrough:
  "pattern_matching env PNone pattern name = Inr PNone \<and>
   enum_matching env PNone allowed name = Inr PNone \<and>
   define_object env PNone c = Inr PNone \<and>
   define_list env PNone spec st = (Inr PNone, st) \<and>
   return_one_of env class_list PNone = Inr PNone"
  by (simp add: pattern_matching_def enum_matching_def define_object_def define_list_def
      return_one_of_def)



text \<open>
  C5. For a string \<open>v\<close>, a pattern and a field name: when \<^verbatim>\<open>re.match\<close>, which matches
  at the start of the string and not the whole string, finds a match,
  \<^verbatim>\<open>_pattern_matching\<close> returns \<open>v\<close> unchanged; when it finds none,
  \<^verbatim>\<open>_pattern_matching\<close> raises the error whose message names the field and the pattern.
\<close>

theorem pattern_matching_prefix:
  "(re_match env pattern (PStr v) = Inr True \<longrightarrow>
      pattern_matching env (PStr v) pattern name = Inr (PStr v)) \<and>
   (re_match env pattern (PStr v) = Inr False \<longrightarrow>
      pattern_matching env (PStr v) pattern name =
        Inl (ValueError (''Invalid value for '' @ name @ '': must match '' @ pattern)))"
  by (simp add: pattern_matching_def)

text \<open>The pattern \<open>ab\<close> matches \<open>abc\<close> at the start without matching all of it, and
  does not match \<open>xab\<close>.\<close>

theorem pattern_matching_prefix_witness:
  "re_match demo_env ''ab'' (PStr ''abc'') = Inr True \<and>
   pattern_matching demo_env (PStr ''abc'') ''ab'' ''name'' = Inr (PStr ''abc'') \<and>
   re_match demo_env ''ab'' (PStr ''xab'') = Inr False \<and>
   pattern_matching demo_env (PStr ''xab'') ''ab'' ''name'' =
     Inl (ValueError ''Invalid value for name: must match ab'')"
proof -
  have m: "re_match demo_env ''ab'' (PStr ''abc'') = Inr True"
    by (simp add: demo_env_def literal_match_def)
  have n: "re_match demo_env ''ab'' (PStr ''xab'') = Inr False"
    by (simp add: demo_env_def literal_match_def)
  from pattern_matching_prefix [of demo_env "''ab''" "''abc''" "''name''"] m
  have a: "pattern_matching demo_env (PStr ''abc'') ''ab'' ''name'' = Inr (PStr ''abc'')"
    by simp
  from pattern_matching_prefix [of demo_env "''ab''" "''xab''" "''name''"] n
  have b: "pattern_matching demo_env (PStr ''xab'') ''ab'' ''name'' =
     Inl (ValueError ''Invalid value for name: must match ab'')"
    by simp
  from m n a b show ?thesis by simp
qed

text \<open>
  C6. For a value that is a string \<open>s\<close> or an enumeration member whose underlying value
  is the string \<open>s\<close>, and a list of allowed strings: \<^verbatim>\<open>_enum_matching\<close> compares \<open>s\<close>
  with the allowed strings; when \<open>s\<close> is one of them it returns the value it was given, a
  string as a string and a member as a member; otherwise it raises the error whose
  message lists the allowed strings.
\<close>

theorem enum_matching_member:
  "(s \<in> set allowed \<longrightarrow>
      enum_matching env (PStr s) allowed name = Inr (PStr s) \<and>
      enum_matching env (PEnum c m (PStr s)) allowed name = Inr (PEnum c m (PStr s))) \<and>
   (s \<notin> set allowed \<longrightarrow>
      enum_matching env (PStr s) allowed name =
        Inl (ValueError (''Invalid value for '' @ name @ '': must match one of ''
                           @ list_repr env allowed)) \<and>
      enum_matching env (PEnum c m (PStr s)) allowed name =
        Inl (ValueError (''Invalid value for '' @ name @ '': must match one of ''
                           @ list_repr env allowed)))"
  by (simp add: enum_matching_def enum_str_value_def py_in_def)

text \<open>The specification's end-to-end example: \<open>available\<close> is accepted, as a string and
  as a member of \<open>Status\<close>; \<open>bogus\<close> is rejected.\<close>

theorem enum_matching_member_witness:
  "''available'' \<in> set [''available'', ''pending'', ''sold''] \<and>
   enum_matching demo_env (PStr ''available'') [''available'', ''pending'', ''sold''] ''status''
     = Inr (PStr ''available'') \<and>
   enum_matching demo_env (PEnum ''Status'' ''AVAILABLE'' (PStr ''available''))
     [''available'', ''pending'', ''sold''] ''status''
     = Inr (PEnum ''Status'' ''AVAILABLE'' (PStr ''available'')) \<and>
   ''bogus'' \<notin> set [''available'', ''pending'', ''sold''] \<and>
   enum_matching demo_env (PStr ''bogus'') [''available'', ''pending'', ''sold''] ''status''
     = Inl (ValueError (''Invalid value for status: must match one of [''
              @ quoted ''available'' @ '', '' @ quoted ''pending'' @ '', ''
              @ quoted ''sold'' @ '']''))"
proof -
  let ?A = "[''available'', ''pending'', ''sold'']"
  have i: "''available'' \<in> set ?A" by simp
  have o: "''bogus'' \<notin> set ?A" by simp
  from enum_matching_member [of "''available''" ?A demo_env "''status''" "''Status''"
      "''AVAILABLE''"] i
  have a: "enum_matching demo_env (PStr ''available'') ?A ''status'' = Inr (PStr ''available'')"
    and b: "enum_matching demo_env (PEnum ''Status'' ''AVAILABLE'' (PStr ''available''))
      ?A ''status'' = Inr (PEnum ''Status'' ''AVAILABLE'' (PStr ''available''))"
    by blast+
  from enum_matching_member [of "''bogus''" ?A demo_env "''status''"] o
  have "enum_matching demo_env (PStr ''bogus'') ?A ''status'' =
      Inl (ValueError (''Invalid value for '' @ ''status'' @ '': must match one of ''
                           @ list_repr demo_env ?A))"
    by blast
  then have c: "enum_matching demo_env (PStr ''bogus'') ?A ''status''
     = Inl (ValueError (''Invalid value for status: must match one of [''
              @ quoted ''available'' @ '', '' @ quoted ''pending'' @ '', ''
              @ quoted ''sold'' @ '']''))"
    by (simp add: list_repr_def demo_env_def)
  from i o a b c show ?thesis by blast
qed

text \<open>
  C7. On a string, a float, an int or a bool, the resolver returns its input as it is,
  whatever the candidate set and the generated layer are: no candidate is consulted.
\<close>

theorem primitive_passthrough:
  "return_one_of env class_list (PStr s) = Inr (PStr s) \<and>
   return_one_of env class_list (PFloat f) = Inr (PFloat f) \<and>
   return_one_of env class_list (PInt i) = Inr (PInt i) \<and>
   return_one_of env class_list (PBool b) = Inr (PBool b)"
  by (simp add: return_one_of_def)

text \<open>
  C8. For a list of raw mappings and a model class \<open>Foo\<close> (not a union, not an
  enumeration) whose mapping constructor returns an instance for each of them,
  \<^verbatim>\<open>_define_list\<close> returns a list of the same length whose element at each position is
  the instance that \<open>Foo\<close>'s mapping constructor builds from the input element at that
  position; the class attribute is changed only by what these constructor calls assign.
\<close>

theorem define_list_same_length_order:
  assumes "\<forall>item\<in>set items. is_dict item \<and> (\<exists>v. unmap env n item = Inr v)"
  shows "\<exists>vs. define_list env (PList items) (Plain (CModel n)) st =
               (Inr (PList vs), foldl (\<lambda>s item. assigns env (CallUnmap n item) s) st items) \<and>
              length vs = length items \<and>
              (\<forall>i<length items. unmap env n (items ! i) = Inr (vs ! i))"
proof -
  from define_list_loop_models [OF assms, of "[]" st] obtain vs where
    vs: "define_list_loop env (Plain (CModel n)) items [] st =
           (Inr (PList vs), foldl (\<lambda>s item. assigns env (CallUnmap n item) s) st items)"
        "list_all2 (\<lambda>item v. unmap env n item = Inr v) items vs"
    by auto
  from vs(2) have "length vs = length items"
    and "\<forall>i<length items. unmap env n (items ! i) = Inr (vs ! i)"
    by (auto simp: list_all2_conv_all_nth)
  with vs(1) show ?thesis by (auto simp: define_list_def)
qed

text \<open>Two raw mappings and the class \<open>A\<close>.\<close>

theorem define_list_same_length_order_witness:
  "is_dict (PDict [(''x'', PInt 1), (''y'', PInt 2)]) \<and>
   unmap demo_env ''A'' (PDict [(''x'', PInt 1), (''y'', PInt 2)]) =
     Inr (PObj ''A'' [(''x'', PInt 1), (''y'', PInt 2)]) \<and>
   is_dict (PDict [(''x'', PInt 3)]) \<and>
   unmap demo_env ''A'' (PDict [(''x'', PInt 3)]) =
     Inr (PObj ''A'' [(''x'', PInt 3), (''y'', PNone)]) \<and>
   define_list demo_env
     (PList [PDict [(''x'', PInt 1), (''y'', PInt 2)], PDict [(''x'', PInt 3)]])
     (Plain (CModel ''A'')) [] =
     (Inr (PList [PObj ''A'' [(''x'', PInt 1), (''y'', PInt 2)],
                  PObj ''A'' [(''x'', PInt 3), (''y'', PNone)]]), [])"
proof -
  let ?i1 = "PDict [(''x'', PInt 1), (''y'', PInt 2)]"
  let ?i2 = "PDict [(''x'', PInt 3)]"
  let ?o1 = "PObj ''A'' [(''x'', PInt 1), (''y'', PInt 2)]"
  let ?o2 = "PObj ''A'' [(''x'', PInt 3), (''y'', PNone)]"
  have u1: "unmap demo_env ''A'' ?i1 = Inr ?o1" by code_simp
  have u2: "unmap demo_env ''A'' ?i2 = Inr ?o2" by code_simp
  have h: "\<forall>item\<in>set [?i1, ?i2]. is_dict item \<and> (\<exists>v. unmap demo_env ''A'' item = Inr v)"
    using u1 u2 by simp
  have q: "foldl (\<lambda>s item. assigns demo_env (CallUnmap ''A'' item) s) [] [?i1, ?i2] = []"
    by (simp add: demo_env_def)
  from define_list_same_length_order [OF h, of "[]"] obtain vs where
    r: "define_list demo_env (PList [?i1, ?i2]) (Plain (CModel ''A'')) [] = (Inr (PList vs), [])"
    and l: "length vs = length [?i1, ?i2]"
    and e: "\<forall>i<length [?i1, ?i2]. unmap demo_env ''A'' ([?i1, ?i2] ! i) = Inr (vs ! i)"
    unfolding q by blast
  from l obtain a b where ab: "vs = [a, b]"
    by (cases vs; cases "tl vs") auto
  from e have "unmap demo_env ''A'' ([?i1, ?i2] ! 0) = Inr (vs ! 0)"
    by (rule allE [where x = 0]) simp
  moreover from e have "unmap demo_env ''A'' ([?i1, ?i2] ! 1) = Inr (vs ! 1)"
    by (rule allE [where x = 1]) simp
  ultimately have "a = ?o1" and "b = ?o2" using ab u1 u2 by simp_all
  with ab r u1 u2 show ?thesis by simp
qed



text \<open>
  C10 (amended). When \<^verbatim>\<open>_define_list\<close> processes a specification with type arguments
  (a union) it passes the candidate set to the resolver by assigning the class attribute
  \<^verbatim>\<open>OneOfBaseModel.class_list\<close> before each element is resolved: every element of the
  returned list is what the resolver returns for the input element at that position with
  the class map of the union as its candidate set. The assignment is not transient:
  \<^verbatim>\<open>_define_list\<close> never restores the attribute, so when a call on an input with at
  least one element returns, the attribute is the class map of the union as the
  resolution of the last element left it. It is that class map itself when the generated
  layer assigns nothing; a generated constructor that runs during the resolution can
  assign the attribute again.
\<close>

theorem class_list_not_restored:
  assumes "spec_args spec \<noteq> []" and "py_iter input = Inr items" and "items \<noteq> []"
    and "fst (define_list env input spec st) = Inr (PList vs)"
  shows "list_all2 (\<lambda>item v. return_one_of env (create_class_map spec) item = Inr v) items vs \<and>
         snd (define_list env input spec st) =
           return_one_of_effect env (create_class_map spec) (last items)
             (create_class_map spec) \<and>
         ((\<forall>call s. assigns env call s = s) \<longrightarrow>
            snd (define_list env input spec st) = create_class_map spec)"
proof -
  from assms(2) have nn: "input \<noteq> PNone" by auto
  then have dl: "define_list env input spec st = define_list_loop env spec items [] st"
    using assms(2) by (simp add: define_list_def)
  have vals: "list_all2 (\<lambda>item v. return_one_of env (create_class_map spec) item = Inr v)
      items vs"
    using define_list_loop_resolved [OF assms(1), of env items "[]" st vs] assms(4)
    unfolding dl by auto
  have state: "snd (define_list env input spec st) =
      return_one_of_effect env (create_class_map spec) (last items) (create_class_map spec)"
    using define_list_loop_last_state [OF assms(1) assms(3), of env "[]" st] assms(4)
    unfolding dl by simp
  have "snd (define_list env input spec st) = create_class_map spec"
    if "\<forall>call s. assigns env call s = s"
    using state return_one_of_effect_id [OF that] by simp
  with vals state show ?thesis by blast
qed

text \<open>Two raw mappings against \<open>Union[A, B]\<close>, the attribute holding the candidates of
  an earlier call and the generated layer assigning nothing: the attribute is left with
  the class map of the union. One raw mapping against \<open>Union[A, B]\<close> where the
  constructor of \<open>B\<close> coerces a nested \<open>Union[str, int]\<close> list: the attribute is left
  with the class map of the nested union.\<close>

theorem class_list_not_restored_witness:
  "spec_args (UnionOf [CModel ''A'', CModel ''B'']) \<noteq> [] \<and>
   py_iter (PList [PDict [(''x'', PInt 1)], PDict [(''z'', PInt 2)]]) =
     Inr [PDict [(''x'', PInt 1)], PDict [(''z'', PInt 2)]] \<and>
   fst (define_list demo_env (PList [PDict [(''x'', PInt 1)], PDict [(''z'', PInt 2)]])
          (UnionOf [CModel ''A'', CModel ''B'']) [(''str'', CStr)]) =
     Inr (PList [PObj ''A'' [(''x'', PInt 1), (''y'', PNone)],
                 PObj ''B'' [(''x'', PNone), (''y'', PNone), (''z'', PInt 2)]]) \<and>
   snd (define_list demo_env (PList [PDict [(''x'', PInt 1)], PDict [(''z'', PInt 2)]])
          (UnionOf [CModel ''A'', CModel ''B'']) [(''str'', CStr)]) =
     create_class_map (UnionOf [CModel ''A'', CModel ''B'']) \<and>
   create_class_map (UnionOf [CModel ''A'', CModel ''B'']) =
     [(''A'', CModel ''A''), (''B'', CModel ''B'')] \<and>
   fst (define_list nested_env
          (PList [PDict [(''x'', PInt 1), (''y'', PInt 2), (''z'', PInt 3)]])
          (UnionOf [CModel ''A'', CModel ''B'']) []) =
     Inr (PList [PObj ''B'' [(''x'', PInt 1), (''y'', PInt 2), (''z'', PInt 3)]]) \<and>
   snd (define_list nested_env
          (PList [PDict [(''x'', PInt 1), (''y'', PInt 2), (''z'', PInt 3)]])
          (UnionOf [CModel ''A'', CModel ''B'']) []) =
     [(''str'', CStr), (''int'', CInt)]"
proof -
  let ?spec = "UnionOf [CModel ''A'', CModel ''B'']"
  let ?in1 = "PList [PDict [(''x'', PInt 1)], PDict [(''z'', PInt 2)]]"
  let ?items1 = "[PDict [(''x'', PInt 1)], PDict [(''z'', PInt 2)]]"
  let ?out1 = "[PObj ''A'' [(''x'', PInt 1), (''y'', PNone)],
                PObj ''B'' [(''x'', PNone), (''y'', PNone), (''z'', PInt 2)]]"
  let ?d3 = "PDict [(''x'', PInt 1), (''y'', PInt 2), (''z'', PInt 3)]"
  let ?out3 = "[PObj ''B'' [(''x'', PInt 1), (''y'', PInt 2), (''z'', PInt 3)]]"
  have a: "spec_args ?spec \<noteq> []" by simp
  have i1: "py_iter ?in1 = Inr ?items1" by simp
  have n1: "?items1 \<noteq> []" by simp
  have f1: "fst (define_list demo_env ?in1 ?spec [(''str'', CStr)]) = Inr (PList ?out1)"
    by (simp add: demo_union_run)
  have quiet: "\<forall>call s. assigns demo_env call s = s" by (simp add: demo_env_def)
  have c: "create_class_map ?spec = [(''A'', CModel ''A''), (''B'', CModel ''B'')]"
    by code_simp
  from class_list_not_restored [OF a i1 n1 f1] quiet
  have s1: "snd (define_list demo_env ?in1 ?spec [(''str'', CStr)]) = create_class_map ?spec"
    by blast
  have i3: "py_iter (PList [?d3]) = Inr [?d3]" by simp
  have n3: "[?d3] \<noteq> []" by simp
  have f3: "fst (define_list nested_env (PList [?d3]) ?spec []) = Inr (PList ?out3)"
    by (rule nested_union_value)
  from class_list_not_restored [OF a i3 n3 f3]
  have "snd (define_list nested_env (PList [?d3]) ?spec []) =
      return_one_of_effect nested_env (create_class_map ?spec) (last [?d3])
        (create_class_map ?spec)"
    by blast
  then have s3: "snd (define_list nested_env (PList [?d3]) ?spec []) =
      [(''str'', CStr), (''int'', CInt)]"
    by (simp add: nested_union_effect)
  from a i1 f1 s1 c f3 s3 show ?thesis by blast
qed

text \<open>
  C10 as stated fails: with the attribute empty before the call, as the class declares
  it, a call of \<^verbatim>\<open>_define_list\<close> on one raw mapping and \<open>Union[A, B]\<close> returns with
  the candidate map of the union still in the attribute.
\<close>

theorem class_list_transient_counterexample:
  "define_list demo_env (PList [PDict [(''x'', PInt 1), (''y'', PInt 2)]])
     (UnionOf [CModel ''A'', CModel ''B'']) [] =
     (Inr (PList [PObj ''A'' [(''x'', PInt 1), (''y'', PInt 2)]]),
      [(''A'', CModel ''A''), (''B'', CModel ''B'')])"
  by code_simp

end
